theory Spec2Isabelle
  imports Complex_Main
begin

section \<open>Data model of the dashboard client (dashboard/app.js)\<close>

text \<open>
  A scalar JSON value as the client reads it out of the parsed snapshot; \<open>JUndefined\<close>
  is what reading an absent property yields. JavaScript numbers are read as real numbers:
  \<open>Math.min\<close>, \<open>Math.max\<close> and the comparisons are exact on them, the rounding of
  \<open>+\<close>, \<open>-\<close>, \<open>*\<close> and \<open>/\<close> is not modelled. Strict equality \<open>===\<close> on these scalars
  is equality of the values.
\<close>

datatype jsval = JUndefined | JNull | JBool bool | JNum real | JStr string

text \<open>
  A piece of rendered text: literal characters, or a value that the platform converts to
  a string when it is assigned to \<open>textContent\<close> or interpolated into a template.
\<close>

datatype inline = S string | V jsval

record payload =
  payoff_matrix :: "string option"
    \<comment> \<open>the JSON text of a truthy \<open>payoff_matrix\<close>; \<open>None\<close> when absent or falsy\<close>

record event =
  ev_timestamp :: jsval
  ev_source :: jsval
  ev_title :: jsval
  ev_memo :: jsval
  ev_topic :: jsval
  ev_payload :: "payload option"

record timeline_item =
  tl_timestamp :: jsval
  tl_label :: jsval

record learning =
  alpha_aggression :: jsval
  effectiveness_score :: jsval
  "note" :: jsval

text \<open>
  A mapping (a JSON object) is the list of its entries in the order \<open>Object.entries\<close>,
  \<open>Object.keys\<close> and \<open>Object.values\<close> enumerate them, which is the order of insertion
  but for integer-like keys: these come first, in ascending order. \<open>None\<close> stands for an
  absent (or falsy) field.
\<close>

record country =
  gdp :: jsval
  welfare :: jsval
  political_pressure :: jsval
  exports :: "(string \<times> jsval) list option"
  "imports" :: "(string \<times> jsval) list option"
  tariffs :: "(string \<times> jsval) list option"

record snapshot =
  round_no :: jsval
  phase :: jsval
  timestamp :: jsval
  classification :: jsval
  learning :: "learning option"
  countries :: "(string \<times> country) list option"
  trade_flow :: "(string \<times> real) list option"
  welfare_impact :: "(string \<times> jsval) list option"
  events :: "event list option"
  policy_timeline :: "timeline_item list option"
  agent_status :: "(string \<times> jsval) list option"
  system_health :: "jsval option"
    \<comment> \<open>the \<open>backend\<close> property of a truthy \<open>system_health\<close>\<close>

text \<open>
  What one tick's \<open>fetch\<close> and \<open>response.json()\<close> produce. A parsed body is a JSON
  object whose fields, where present, have the JSON type the client expects (a list is a
  list, a mapping a mapping, a record a record); a field of another type, and a body that
  parses to something other than an object, are outside this model.
\<close>

datatype response =
    TransportFailure    \<comment> \<open>\<open>fetch\<close> rejects\<close>
  | NotOk               \<comment> \<open>\<open>response.ok\<close> is false\<close>
  | ParseFailure        \<comment> \<open>\<open>response.json()\<close> rejects\<close>
  | Parsed snapshot

subsection \<open>Session state (lines 4 to 10)\<close>

record session =
  lastTimestamp :: jsval
  staleTicks :: nat
  welfareAlpha :: "jsval list"
  welfareBeta :: "jsval list"
  welfareGamma :: "jsval list"

definition init_session :: session where
  "init_session =
     \<lparr>lastTimestamp = JStr '''', staleTicks = 0,
      welfareAlpha = [], welfareBeta = [], welfareGamma = []\<rparr>"

subsection \<open>The display surface\<close>

datatype li =
    PlaceholderLi string
  | TimelineLi jsval jsval                \<comment> \<open>timestamp, label\<close>
  | EventLi jsval jsval jsval jsval       \<comment> \<open>timestamp, source, title, memo\<close>
  | StatusLi string jsval                 \<comment> \<open>agent, status\<close>

record card =
  kpi_gdp :: inline
  kpi_welfare :: inline
  kpi_pressure :: inline
  tbl_exports :: "(string \<times> inline) list"
  tbl_imports :: "(string \<times> inline) list"
  tbl_tariffs :: "(string \<times> inline) list"

datatype panel = PanelText string | PanelCard card

record canvas =
  width :: real
  height :: real

text \<open>
  One bar of the trade-flow chart. \<open>None\<close> in a coordinate stands for the non-finite
  value (Infinity or NaN) a JavaScript division by zero produces.
\<close>

record bar =
  bar_key :: string
  bar_value :: real
  bar_x :: "real option"
  bar_y :: real
  bar_w :: "real option"
  bar_h :: real

record heat_cell =
  sector :: string
  cell_value :: real
  intensity :: real

text \<open>
  The ordinate of a point of the welfare chart: a number; none, where the arithmetic
  yields NaN; or, for a buffered text \<open>s\<close>, the ordinate that belongs to the number
  \<open>s\<close> converts to (none when \<open>s\<close> is not numeric), the conversion of a text to a
  number being the platform's.
\<close>

datatype ordinate = Y real | NoY | YOfText string

record welfare_chart =
  xStep :: real
  minValue :: real
  maxValue :: real
  range :: real
  line_alpha :: "(real \<times> ordinate) list"
  line_beta :: "(real \<times> ordinate) list"
  line_gamma :: "(real \<times> ordinate) list"
  min_label :: "inline list"
  max_label :: "inline list"

record page =
  round_el :: jsval
  phase_el :: jsval
  timestamp_el :: jsval
  classification_el :: jsval
  classification_memo_el :: string
  payoff_el :: "inline list"
  alpha_aggression_el :: jsval
  effectiveness_score_el :: jsval
  learning_note_el :: jsval
  timeline_el :: "li list"
  feed_el :: "li list"
  messages_el :: "li list"
  alpha_metrics_el :: panel
  beta_metrics_el :: panel
  gamma_metrics_el :: panel
  system_health_el :: "inline list"
  agent_status_el :: "li list"
  trade_flow_canvas :: canvas
  trade_flow_drawn :: "bar list"
  heatmap_el :: "heat_cell list"
  welfare_canvas :: canvas
  welfare_drawn :: "welfare_chart option"

record client =
  sess :: session
  display :: page

definition init_client :: "page \<Rightarrow> client" where
  "init_client p = \<lparr>sess = init_session, display = p\<rparr>"

section \<open>Panel renderers\<close>

definition or_empty :: "'a list option \<Rightarrow> 'a list" where
  "or_empty m = (case m of None \<Rightarrow> [] | Some xs \<Rightarrow> xs)"

definition renderTimeline :: "timeline_item list \<Rightarrow> li list" where
  "renderTimeline items =
     (if items = [] then [PlaceholderLi ''Awaiting first policy updates...'']
      else map (\<lambda>item. TimelineLi (tl_timestamp item) (tl_label item)) (rev items))"

definition event_li :: "event \<Rightarrow> li" where
  "event_li e = EventLi (ev_timestamp e) (ev_source e) (ev_title e) (ev_memo e)"

definition renderFeed :: "event list \<Rightarrow> li list" where
  "renderFeed evs =
     (if evs = [] then [PlaceholderLi ''No agent activity yet.'']
      else map event_li (rev evs))"

definition allowed_topic :: "event \<Rightarrow> bool" where
  "allowed_topic e =
     (ev_topic e \<in> set [JStr ''policy'', JStr ''strategy'', JStr ''negotiation'', JStr ''market''])"

definition renderMessages :: "event list \<Rightarrow> li list" where
  "renderMessages evs =
     (if evs = [] then [PlaceholderLi ''No inter-agent messages yet.'']
      else map event_li (take 12 (rev (filter allowed_topic evs))))"

subsection \<open>Number formatting\<close>

definition digit :: "nat \<Rightarrow> char" where
  "digit d = ''0123456789'' ! (d mod 10)"

fun decimal :: "nat \<Rightarrow> string" where
  "decimal n = (if n < 10 then [digit n] else decimal (n div 10) @ [digit n])"

declare decimal.simps [simp del]

text \<open>
  \<open>x.toFixed(2)\<close> in fixed notation: the integer \<open>n\<close> nearest to \<open>100 * |x|\<close> (the larger
  one on a tie), printed with a point before its last two digits and the sign of \<open>x\<close>.
\<close>

definition fixed2 :: "real \<Rightarrow> string" where
  "fixed2 x =
     (let n = nat \<lfloor>\<bar>x\<bar> * 100 + 1 / 2\<rfloor>
      in (if x < 0 then ''-'' else '''') @ decimal (n div 100) @ ''.''
           @ [digit (n div 10), digit n])"

text \<open>
  \<open>formatNumber\<close> of \<open>renderCountryMetrics\<close>. From \<open>10^21\<close> on, \<open>toFixed\<close> hands the
  number to the ordinary number-to-string conversion, which is what \<open>V\<close> stands for.
\<close>

definition formatNumber :: "jsval \<Rightarrow> inline" where
  "formatNumber v =
     (case v of
        JNum x \<Rightarrow> (if 10 ^ 21 \<le> \<bar>x\<bar> then V (JNum x) else S (fixed2 x))
      | _ \<Rightarrow> V v)"

definition table :: "(string \<times> jsval) list option \<Rightarrow> (string \<times> inline) list" where
  "table obj = map (\<lambda>(k, v). (k, formatNumber v)) (or_empty obj)"

definition renderCountryMetrics :: "country option \<Rightarrow> panel" where
  "renderCountryMetrics data =
     (case data of
        None \<Rightarrow> PanelText ''No data available.''
      | Some c \<Rightarrow>
          if gdp c = JUndefined then PanelText ''No data available.''
          else PanelCard
            \<lparr>kpi_gdp = formatNumber (gdp c),
             kpi_welfare = formatNumber (welfare c),
             kpi_pressure = formatNumber (political_pressure c),
             tbl_exports = table (exports c),
             tbl_imports = table (imports c),
             tbl_tariffs = table (tariffs c)\<rparr>)"

section \<open>Chart renderers\<close>

text \<open>
  \<open>Math.max(...values, 1)\<close> and its siblings: the extremum of the listed values and the
  trailing constant.
\<close>

definition math_max :: "real list \<Rightarrow> real \<Rightarrow> real" where
  "math_max values_list k = fold max values_list k"

definition math_min :: "real list \<Rightarrow> real \<Rightarrow> real" where
  "math_min values_list k = fold min values_list k"

definition js_div :: "real \<Rightarrow> real \<Rightarrow> real option" where
  "js_div a b = (if b = 0 then None else Some (a / b))"

definition drawTradeFlow :: "canvas \<Rightarrow> (string \<times> real) list \<Rightarrow> bar list" where
  "drawTradeFlow cv tradeFlow =
     (let keys = map fst tradeFlow;
          values_list = map snd tradeFlow;
          mx = math_max values_list 1;
          barWidth = js_div (width cv - 40) (real (length keys))
      in map (\<lambda>(idx, key).
                let h = (values_list ! idx / mx) * (height cv - 40)
                in \<lparr>bar_key = key,
                    bar_value = values_list ! idx,
                    bar_x = map_option (\<lambda>bw. 20 + real idx * bw) barWidth,
                    bar_y = height cv - 20 - h,
                    bar_w = map_option (\<lambda>bw. bw * 0.6) barWidth,
                    bar_h = h\<rparr>)
             (enumerate 0 keys))"

definition renderHeatmap :: "(string \<times> real) list \<Rightarrow> heat_cell list" where
  "renderHeatmap tradeFlow =
     (let values_list = map snd tradeFlow;
          mx = math_max values_list 1
      in map (\<lambda>(sec, v).
                \<lparr>sector = sec, cell_value = v, intensity = min 0.85 (0.2 + v / mx)\<rparr>)
             tradeFlow)"

fun numbers :: "jsval list \<Rightarrow> real list" where
  "numbers [] = []"
| "numbers (JNum x # vs) = x # numbers vs"
| "numbers (v # vs) = numbers vs"

text \<open>
  The number coercion of \<open>value - minValue\<close> in \<open>drawLine\<close>: a number is itself,
  \<open>null\<close> is 0, \<open>false\<close> and \<open>true\<close> are 0 and 1, \<open>undefined\<close> is NaN, and a text is
  the number it converts to.
\<close>

datatype coerced = Finite real | NaN | OfText string

definition to_number :: "jsval \<Rightarrow> coerced" where
  "to_number v =
     (case v of
        JUndefined \<Rightarrow> NaN
      | JNull \<Rightarrow> Finite 0
      | JBool b \<Rightarrow> Finite (if b then 1 else 0)
      | JNum x \<Rightarrow> Finite x
      | JStr s \<Rightarrow> OfText s)"

text \<open>One polyline of the welfare chart: a point for every buffered value.\<close>

definition drawLine ::
  "canvas \<Rightarrow> real \<Rightarrow> real \<Rightarrow> real \<Rightarrow> jsval list \<Rightarrow> (real \<times> ordinate) list" where
  "drawLine cv step lo rng values_list =
     map (\<lambda>(idx, v).
            (30 + real idx * step,
             case to_number v of
               Finite x \<Rightarrow> Y (height cv - 30 - ((x - lo) / rng) * (height cv - 30 * 2))
             | NaN \<Rightarrow> NoY
             | OfText s \<Rightarrow> YOfText s))
         (enumerate 0 values_list)"

definition drawWelfare :: "canvas \<Rightarrow> session \<Rightarrow> welfare_chart" where
  "drawWelfare cv h =
     (let padding = 30;
          maxPoints = max (length (welfareAlpha h)) 2;
          step = (width cv - padding * 2) / real (maxPoints - 1);
          allValues = numbers (welfareAlpha h @ welfareBeta h @ welfareGamma h);
          lo = math_min allValues 80;
          hi = math_max allValues 100;
          rng = max 1 (hi - lo)
      in \<lparr>xStep = step, minValue = lo, maxValue = hi, range = rng,
          line_alpha = drawLine cv step lo rng (welfareAlpha h),
          line_beta = drawLine cv step lo rng (welfareBeta h),
          line_gamma = drawLine cv step lo rng (welfareGamma h),
          min_label = [S ''Min: '', formatNumber (JNum lo)],
          max_label = [S ''Max: '', formatNumber (JNum hi)]\<rparr>)"

section \<open>One tick: refresh\<close>

text \<open>Lines 233 to 235.\<close>

definition show_header :: "snapshot \<Rightarrow> page \<Rightarrow> page" where
  "show_header d p =
     p\<lparr>round_el := round_no d, phase_el := phase d, timestamp_el := timestamp d\<rparr>"

text \<open>Lines 236 to 241.\<close>

definition track_staleness :: "snapshot \<Rightarrow> session \<Rightarrow> session" where
  "track_staleness d s =
     (if timestamp d = lastTimestamp s then s\<lparr>staleTicks := staleTicks s + 1\<rparr>
      else s\<lparr>staleTicks := 0, lastTimestamp := timestamp d\<rparr>)"

text \<open>Lines 242 to 254.\<close>

definition show_classification :: "snapshot \<Rightarrow> page \<Rightarrow> page" where
  "show_classification d p =
     (let strategyEvent =
            find (\<lambda>e. ev_topic e = JStr ''strategy'') (rev (or_empty (events d)));
          payoff =
            (case strategyEvent of
               None \<Rightarrow> [S ''Payoff matrix awaiting update.'']
             | Some e \<Rightarrow>
                 (case ev_payload e of
                    None \<Rightarrow> [S ''Payoff matrix awaiting update.'']
                  | Some pl \<Rightarrow>
                      [S ''Payoff matrix: '',
                       S (case payoff_matrix pl of None \<Rightarrow> ''{}'' | Some j \<Rightarrow> j)]))
      in p\<lparr>classification_el := classification d,
           classification_memo_el :=
             ''Scenario classified; see policy notes for strategic guidance.'',
           payoff_el := payoff\<rparr>)"

text \<open>Lines 256 to 258, once \<open>data.learning\<close> is known to be an object.\<close>

definition show_learning :: "learning \<Rightarrow> page \<Rightarrow> page" where
  "show_learning l p =
     p\<lparr>alpha_aggression_el := alpha_aggression l,
       effectiveness_score_el := effectiveness_score l,
       learning_note_el := note l\<rparr>"

text \<open>Lines 260 to 262.\<close>

definition show_lists :: "snapshot \<Rightarrow> page \<Rightarrow> page" where
  "show_lists d p =
     p\<lparr>timeline_el := renderTimeline (or_empty (policy_timeline d)),
       feed_el := renderFeed (or_empty (events d)),
       messages_el := renderMessages (or_empty (events d))\<rparr>"

text \<open>Lines 263 to 270: \<open>countries[full] || countries[alias]\<close>, rendered only when found.\<close>

definition find_country :: "(string \<times> country) list \<Rightarrow> string \<Rightarrow> string \<Rightarrow> country option" where
  "find_country cs full alias =
     (case map_of cs full of Some c \<Rightarrow> Some c | None \<Rightarrow> map_of cs alias)"

definition show_countries :: "snapshot \<Rightarrow> page \<Rightarrow> page" where
  "show_countries d p =
     (case countries d of
        None \<Rightarrow> p
      | Some cs \<Rightarrow>
          (let alpha = find_country cs ''Country Alpha'' ''alpha'';
               beta = find_country cs ''Country Beta'' ''beta'';
               gamma = find_country cs ''Country Gamma'' ''gamma'';
               p1 = (if alpha \<noteq> None
                     then p\<lparr>alpha_metrics_el := renderCountryMetrics alpha\<rparr> else p);
               p2 = (if beta \<noteq> None
                     then p1\<lparr>beta_metrics_el := renderCountryMetrics beta\<rparr> else p1);
               p3 = (if gamma \<noteq> None
                     then p2\<lparr>gamma_metrics_el := renderCountryMetrics gamma\<rparr> else p2)
           in p3))"

text \<open>Lines 272 to 284.\<close>

definition show_status :: "snapshot \<Rightarrow> page \<Rightarrow> page" where
  "show_status d p =
     (let p1 = (case system_health d of
                  None \<Rightarrow> p
                | Some b \<Rightarrow> p\<lparr>system_health_el := [S ''State backend: '', V b]\<rparr>)
      in case agent_status d of
           None \<Rightarrow> p1
         | Some st \<Rightarrow> p1\<lparr>agent_status_el := map (\<lambda>(agent, status). StatusLi agent status) st\<rparr>)"

text \<open>Lines 286 to 295: reading a key the mapping lacks yields \<open>undefined\<close>.\<close>

definition get_prop :: "(string \<times> jsval) list \<Rightarrow> string \<Rightarrow> jsval" where
  "get_prop obj k = (case map_of obj k of None \<Rightarrow> JUndefined | Some v \<Rightarrow> v)"

definition push_history :: "snapshot \<Rightarrow> session \<Rightarrow> session" where
  "push_history d s =
     (case welfare_impact d of
        None \<Rightarrow> s
      | Some wi \<Rightarrow>
          (let a = welfareAlpha s @ [get_prop wi ''Country Alpha''];
               b = welfareBeta s @ [get_prop wi ''Country Beta''];
               g = welfareGamma s @ [get_prop wi ''Country Gamma'']
           in if length a > 20
              then s\<lparr>welfareAlpha := tl a, welfareBeta := tl b, welfareGamma := tl g\<rparr>
              else s\<lparr>welfareAlpha := a, welfareBeta := b, welfareGamma := g\<rparr>))"

text \<open>Lines 297 to 299; the welfare chart reads the buffers of the session.\<close>

definition show_charts :: "snapshot \<Rightarrow> session \<Rightarrow> page \<Rightarrow> page" where
  "show_charts d s p =
     p\<lparr>trade_flow_drawn := drawTradeFlow (trade_flow_canvas p) (or_empty (trade_flow d)),
       heatmap_el := renderHeatmap (or_empty (trade_flow d)),
       welfare_drawn := Some (drawWelfare (welfare_canvas p) s)\<rparr>"

text \<open>
  How the body of the \<open>try\<close> block ends: it runs to its last statement (with or without
  \<open>location.reload()\<close>), it leaves through a \<open>return\<close>, or it throws. Each carries the
  client as it is at that point, so that what was written before a throw stays written.
\<close>

datatype completion =
    Finished client bool    \<comment> \<open>the flag: \<open>location.reload()\<close> was called\<close>
  | Returned client
  | Thrown client

definition refresh_try :: "client \<Rightarrow> response \<Rightarrow> completion" where
  "refresh_try c r =
     (case r of
        TransportFailure \<Rightarrow> Thrown c
      | NotOk \<Rightarrow> Returned c
      | ParseFailure \<Rightarrow> Returned c
      | Parsed d \<Rightarrow>
          (let p1 = show_header d (display c);
               s1 = track_staleness d (sess c);
               p2 = show_classification d p1
           in case learning d of
                None \<Rightarrow> Thrown \<lparr>sess = s1, display = p2\<rparr>
              | Some l \<Rightarrow>
                  (let p3 = show_learning l p2;
                       p4 = show_lists d p3;
                       p5 = show_countries d p4;
                       p6 = show_status d p5;
                       s2 = push_history d s1;
                       p7 = show_charts d s2 p6
                   in Finished \<lparr>sess = s2, display = p7\<rparr> (staleTicks s2 \<ge> 6))))"

text \<open>
  What a tick leaves behind: the client, whether the page was asked to reload, and whether
  the \<open>catch\<close> clause logged an error. No exception leaves \<open>refresh\<close>.
\<close>

record report =
  reloaded :: bool
  logged :: bool
  completed :: bool

definition refresh :: "client \<Rightarrow> response \<Rightarrow> client \<times> report" where
  "refresh c r =
     (case refresh_try c r of
        Finished c' rl \<Rightarrow> (c', \<lparr>reloaded = rl, logged = False, completed = True\<rparr>)
      | Returned c' \<Rightarrow> (c', \<lparr>reloaded = False, logged = False, completed = False\<rparr>)
      | Thrown c' \<Rightarrow> (c', \<lparr>reloaded = False, logged = True, completed = False\<rparr>))"

text \<open>
  \<open>setInterval(refresh, 1200)\<close>: the ticks run one after the other on the same client.
  In the browser a reload discards the page and the session with it; \<open>run\<close> goes on with
  the client as it is, so its reports describe the browser up to the first reload.
\<close>

fun run :: "client \<Rightarrow> response list \<Rightarrow> client \<times> report list" where
  "run c [] = (c, [])"
| "run c (r # rs) =
     (let (c1, rep) = refresh c r; (c2, reps) = run c1 rs in (c2, rep # reps))"

section \<open>Auxiliary notions used in the statements\<close>

text \<open>
  The session a parsed snapshot leaves behind: the staleness update always happens; the
  buffers advance only when the tick gets past the learning fields.
\<close>

definition sess_after :: "snapshot \<Rightarrow> session \<Rightarrow> session" where
  "sess_after d s =
     (case learning d of
        None \<Rightarrow> track_staleness d s
      | Some l \<Rightarrow> push_history d (track_staleness d s))"

text \<open>
  The History Buffer contract in the words of the specification: append; at capacity
  (20) the oldest element leaves first.
\<close>

definition spec_push :: "'a list \<Rightarrow> 'a \<Rightarrow> 'a list" where
  "spec_push buf v = (if length buf < 20 then buf @ [v] else tl buf @ [v])"

definition lockstep :: "session \<Rightarrow> bool" where
  "lockstep s \<longleftrightarrow>
     length (welfareAlpha s) \<le> 20 \<and>
     length (welfareBeta s) = length (welfareAlpha s) \<and>
     length (welfareGamma s) = length (welfareAlpha s)"

text \<open>Every response of the list is a parsed snapshot whose timestamp is \<open>t\<close>.\<close>

definition carries :: "jsval \<Rightarrow> response list \<Rightarrow> bool" where
  "carries t rs = list_all (\<lambda>r. case r of Parsed d \<Rightarrow> timestamp d = t | _ \<Rightarrow> False) rs"

text \<open>
  A string with exactly two decimal places: an optional minus sign, one digit or more, a
  point, two digits.
\<close>

definition is_digit :: "char \<Rightarrow> bool" where
  "is_digit ch = (ch \<in> set ''0123456789'')"

definition two_decimals :: "string \<Rightarrow> bool" where
  "two_decimals str =
     (let body = (if str \<noteq> [] \<and> hd str = CHR ''-'' then tl str else str);
          n = length body
      in 4 \<le> n \<and> list_all is_digit (take (n - 3) body) \<and>
         (case drop (n - 3) body of
            [p, a, b] \<Rightarrow> p = CHR ''.'' \<and> is_digit a \<and> is_digit b
          | _ \<Rightarrow> False))"

text \<open>
  What a tick that gets past the learning fields leaves in an entity's panel, given what
  the panel showed before: \<open>renderCountryMetrics\<close> runs only when the snapshot has a
  \<open>countries\<close> mapping and the mapping has a record under the full name or the alias.
\<close>

definition panel_after :: "snapshot \<Rightarrow> string \<Rightarrow> string \<Rightarrow> panel \<Rightarrow> panel" where
  "panel_after d full alias before =
     (case countries d of
        None \<Rightarrow> before
      | Some cs \<Rightarrow>
          (case find_country cs full alias of
             None \<Rightarrow> before
           | Some m \<Rightarrow> renderCountryMetrics (Some m)))"

subsection \<open>Example data\<close>

text \<open>
  A display surface with nothing rendered yet (canvases of the default size), the
  document \<open>{}\<close>, and a learning record; the concrete inputs below are built from them.
\<close>

definition blank_page :: page where
  "blank_page =
     \<lparr>round_el = JStr '''', phase_el = JStr '''', timestamp_el = JStr '''',
      classification_el = JStr '''', classification_memo_el = '''', payoff_el = [],
      alpha_aggression_el = JStr '''', effectiveness_score_el = JStr '''',
      learning_note_el = JStr '''', timeline_el = [], feed_el = [], messages_el = [],
      alpha_metrics_el = PanelText '''', beta_metrics_el = PanelText '''',
      gamma_metrics_el = PanelText '''', system_health_el = [], agent_status_el = [],
      trade_flow_canvas = \<lparr>width = 300, height = 150\<rparr>, trade_flow_drawn = [],
      heatmap_el = [], welfare_canvas = \<lparr>width = 300, height = 150\<rparr>,
      welfare_drawn = None\<rparr>"

definition bare_snapshot :: snapshot where
  "bare_snapshot =
     \<lparr>round_no = JUndefined, phase = JUndefined, timestamp = JUndefined,
      classification = JUndefined, learning = None, countries = None, trade_flow = None,
      welfare_impact = None, events = None, policy_timeline = None, agent_status = None,
      system_health = None\<rparr>"

definition some_learning :: learning where
  "some_learning =
     \<lparr>alpha_aggression = JNum (1 / 2), effectiveness_score = JNum 0, note = JStr ''steady''\<rparr>"

text \<open>A country record for the examples.\<close>

definition some_country :: country where
  "some_country =
     \<lparr>gdp = JNum 100, welfare = JNum 90, political_pressure = JStr ''low'',
      exports = Some [(''steel'', JNum 2), (''energy'', JNull)], imports = Some [],
      tariffs = None\<rparr>"

section \<open>What a tick does to the session\<close>

lemma sess_refresh:
  "sess (fst (refresh c r)) = (case r of Parsed d \<Rightarrow> sess_after d (sess c) | _ \<Rightarrow> sess c)"
  by (simp add: refresh_def refresh_try_def sess_after_def Let_def
      split: response.split option.split)

lemma report_refresh:
  "snd (refresh c r) =
     (case r of
        Parsed d \<Rightarrow>
          (case learning d of
             None \<Rightarrow> \<lparr>reloaded = False, logged = True, completed = False\<rparr>
           | Some l \<Rightarrow>
               \<lparr>reloaded = (6 \<le> staleTicks (sess_after d (sess c))),
                logged = False, completed = True\<rparr>)
      | TransportFailure \<Rightarrow> \<lparr>reloaded = False, logged = True, completed = False\<rparr>
      | _ \<Rightarrow> \<lparr>reloaded = False, logged = False, completed = False\<rparr>)"
  by (simp add: refresh_def refresh_try_def sess_after_def Let_def
      split: response.split option.split)

lemma track_staleness_buffers [simp]:
  "welfareAlpha (track_staleness d s) = welfareAlpha s"
  "welfareBeta (track_staleness d s) = welfareBeta s"
  "welfareGamma (track_staleness d s) = welfareGamma s"
  by (simp_all add: track_staleness_def)

lemma push_history_stale [simp]:
  "staleTicks (push_history d s) = staleTicks s"
  "lastTimestamp (push_history d s) = lastTimestamp s"
  by (simp_all add: push_history_def Let_def split: option.split)

section \<open>History buffers\<close>

lemma lockstep_push: "lockstep s \<Longrightarrow> lockstep (push_history d s)"
  by (auto simp: lockstep_def push_history_def Let_def split: option.split)

lemma lockstep_track: "lockstep (track_staleness d s) = lockstep s"
  by (simp add: lockstep_def)

lemma lockstep_after: "lockstep s \<Longrightarrow> lockstep (sess_after d s)"
  by (simp add: sess_after_def lockstep_push lockstep_track split: option.split)

lemma lockstep_refresh: "lockstep (sess c) \<Longrightarrow> lockstep (sess (fst (refresh c r)))"
  by (simp add: sess_refresh lockstep_after split: response.split)

lemma lockstep_run: "lockstep (sess c) \<Longrightarrow> lockstep (sess (fst (run c rs)))"
proof (induction rs arbitrary: c)
  case Nil
  then show ?case by simp
next
  case (Cons r rs)
  have "lockstep (sess (fst (refresh c r)))"
    using Cons.prems by (rule lockstep_refresh)
  then have "lockstep (sess (fst (run (fst (refresh c r)) rs)))"
    by (rule Cons.IH)
  then show ?case
    by (simp add: case_prod_beta Let_def)
qed

lemma lockstep_init: "lockstep (sess (init_client p))"
  by (simp add: lockstep_def init_client_def init_session_def)

lemma push_history_fifo:
  assumes "lockstep s"
  shows "push_history d s =
     (case welfare_impact d of
        None \<Rightarrow> s
      | Some wi \<Rightarrow>
          s\<lparr>welfareAlpha := spec_push (welfareAlpha s) (get_prop wi ''Country Alpha''),
            welfareBeta := spec_push (welfareBeta s) (get_prop wi ''Country Beta''),
            welfareGamma := spec_push (welfareGamma s) (get_prop wi ''Country Gamma'')\<rparr>)"
proof (cases "welfare_impact d")
  case None
  then show ?thesis by (simp add: push_history_def)
next
  case (Some wi)
  from assms have len: "length (welfareAlpha s) \<le> 20"
    "length (welfareBeta s) = length (welfareAlpha s)"
    "length (welfareGamma s) = length (welfareAlpha s)"
    by (simp_all add: lockstep_def)
  show ?thesis
  proof (cases "length (welfareAlpha s) < 20")
    case True
    with Some len show ?thesis
      by (simp add: push_history_def spec_push_def Let_def)
  next
    case False
    with len have full: "length (welfareAlpha s) = 20" by simp
    with len have ne: "welfareAlpha s \<noteq> []" "welfareBeta s \<noteq> []" "welfareGamma s \<noteq> []"
      by auto
    from Some full len ne show ?thesis
      by (simp add: push_history_def spec_push_def Let_def)
  qed
qed

text \<open>
  Claim C2. After any sequence of ticks from the start of the session (failed ticks and
  snapshots of any shape included) each of the three buffers holds at most 20 values and
  the three have the same length. A further tick with a parsed snapshot either leaves
  all three as they are, which is what happens when \<open>welfare_impact\<close> is absent (and
  when the tick stops at the learning fields), or pushes one value onto each of the
  three, the oldest value leaving first once a buffer holds 20.
\<close>

theorem history_buffers_fifo_bounded:
  "(let c = fst (run (init_client p) rs);
        s = sess c;
        s' = sess (fst (refresh c (Parsed d)))
    in length (welfareAlpha s) \<le> 20 \<and> length (welfareBeta s) \<le> 20 \<and>
       length (welfareGamma s) \<le> 20 \<and>
       length (welfareBeta s) = length (welfareAlpha s) \<and>
       length (welfareGamma s) = length (welfareAlpha s) \<and>
       (welfareAlpha s', welfareBeta s', welfareGamma s') =
         (case (learning d, welfare_impact d) of
            (Some l, Some wi) \<Rightarrow>
              (spec_push (welfareAlpha s) (get_prop wi ''Country Alpha''),
               spec_push (welfareBeta s) (get_prop wi ''Country Beta''),
               spec_push (welfareGamma s) (get_prop wi ''Country Gamma''))
          | _ \<Rightarrow> (welfareAlpha s, welfareBeta s, welfareGamma s)))"
proof -
  define c where "c = fst (run (init_client p) rs)"
  have inv: "lockstep (sess c)"
    unfolding c_def by (rule lockstep_run) (rule lockstep_init)
  then have len: "length (welfareAlpha (sess c)) \<le> 20"
    "length (welfareBeta (sess c)) = length (welfareAlpha (sess c))"
    "length (welfareGamma (sess c)) = length (welfareAlpha (sess c))"
    by (simp_all add: lockstep_def)
  have inv': "lockstep (track_staleness d (sess c))"
    using inv by (simp add: lockstep_track)
  have step: "(welfareAlpha (sess (fst (refresh c (Parsed d)))),
        welfareBeta (sess (fst (refresh c (Parsed d)))),
        welfareGamma (sess (fst (refresh c (Parsed d))))) =
       (case (learning d, welfare_impact d) of
            (Some l, Some wi) \<Rightarrow>
              (spec_push (welfareAlpha (sess c)) (get_prop wi ''Country Alpha''),
               spec_push (welfareBeta (sess c)) (get_prop wi ''Country Beta''),
               spec_push (welfareGamma (sess c)) (get_prop wi ''Country Gamma''))
          | _ \<Rightarrow> (welfareAlpha (sess c), welfareBeta (sess c), welfareGamma (sess c)))"
    by (simp add: sess_refresh sess_after_def push_history_fifo [OF inv'] split: option.split)
  from len step show ?thesis
    by (simp add: Let_def c_def [symmetric])
qed


section \<open>Failed ticks\<close>

text \<open>
  Claim C4. When the transport call fails, when the response status is not successful,
  and when the body does not parse, the tick ends at once: the client, and with it the
  session state (\<open>lastTimestamp\<close>, \<open>staleTicks\<close> and the three history buffers), is
  what it was, no reload is asked for, and \<open>refresh\<close> returns normally. Only the
  transport failure reaches the \<open>catch\<close> clause and is logged.
\<close>

theorem tick_failure_atomic:
  "refresh c TransportFailure = (c, \<lparr>reloaded = False, logged = True, completed = False\<rparr>) \<and>
   refresh c NotOk = (c, \<lparr>reloaded = False, logged = False, completed = False\<rparr>) \<and>
   refresh c ParseFailure = (c, \<lparr>reloaded = False, logged = False, completed = False\<rparr>)"
  by (simp add: refresh_def refresh_try_def)

section \<open>Staleness\<close>

lemma stale_after:
  "lastTimestamp (sess_after d s) = timestamp d"
  "staleTicks (sess_after d s) = (if timestamp d = lastTimestamp s then staleTicks s + 1 else 0)"
  by (simp_all add: sess_after_def track_staleness_def split: option.split)

lemma reloaded_refresh:
  "reloaded (snd (refresh c r)) =
     (case r of
        Parsed d \<Rightarrow> learning d \<noteq> None \<and> 6 \<le> staleTicks (sess_after d (sess c))
      | _ \<Rightarrow> False)"
  by (simp add: report_refresh split: response.split option.split)

lemma run_snoc:
  "run c (rs @ [r]) =
     (fst (refresh (fst (run c rs)) r), snd (run c rs) @ [snd (refresh (fst (run c rs)) r)])"
  by (induction rs arbitrary: c) (simp_all add: case_prod_beta Let_def)

lemma length_run [simp]: "length (snd (run c rs)) = length rs"
  by (induction rs arbitrary: c) (simp_all add: case_prod_beta Let_def)

lemma run_carries_count:
  "carries t rs \<Longrightarrow> lastTimestamp (sess c) = t \<Longrightarrow>
     lastTimestamp (sess (fst (run c rs))) = t \<and>
     staleTicks (sess (fst (run c rs))) = staleTicks (sess c) + length rs"
proof (induction rs arbitrary: c)
  case Nil
  then show ?case by simp
next
  case (Cons r rs)
  from Cons.prems(1) obtain d where r: "r = Parsed d" and td: "timestamp d = t"
    and rest: "carries t rs"
    by (auto simp: carries_def split: response.splits)
  let ?c1 = "fst (refresh c r)"
  have s1: "lastTimestamp (sess ?c1) = t" "staleTicks (sess ?c1) = staleTicks (sess c) + 1"
    using r td Cons.prems(2) by (simp_all add: sess_refresh stale_after)
  from Cons.IH [OF rest s1(1)] s1(2) show ?case
    by (simp add: case_prod_beta Let_def)
qed

lemma run_carries_quiet:
  "carries t rs \<Longrightarrow> lastTimestamp (sess c) = t \<Longrightarrow> staleTicks (sess c) + length rs < 6 \<Longrightarrow>
     map reloaded (snd (run c rs)) = replicate (length rs) False"
proof (induction rs arbitrary: c)
  case Nil
  then show ?case by simp
next
  case (Cons r rs)
  from Cons.prems(1) obtain d where r: "r = Parsed d" and td: "timestamp d = t"
    and rest: "carries t rs"
    by (auto simp: carries_def split: response.splits)
  let ?c1 = "fst (refresh c r)"
  have s1: "lastTimestamp (sess ?c1) = t" "staleTicks (sess ?c1) = staleTicks (sess c) + 1"
    using r td Cons.prems(2) by (simp_all add: sess_refresh stale_after)
  have quiet: "\<not> reloaded (snd (refresh c r))"
    using r td Cons.prems(2,3) by (simp add: reloaded_refresh stale_after)
  have "staleTicks (sess ?c1) + length rs < 6"
    using s1(2) Cons.prems(3) by simp
  from Cons.IH [OF rest s1(1) this] quiet show ?case
    by (simp add: case_prod_beta Let_def)
qed


lemma run_carries_reload:
  assumes "carries t rs" and "lastTimestamp (sess c) = t"
    and "staleTicks (sess c) + length rs = 5"
    and "timestamp d = t" and "learning d \<noteq> None"
  shows "map reloaded (snd (run c (rs @ [Parsed d]))) = replicate (length rs) False @ [True]"
proof -
  have quiet: "map reloaded (snd (run c rs)) = replicate (length rs) False"
    using run_carries_quiet [OF assms(1,2)] assms(3) by simp
  have st: "lastTimestamp (sess (fst (run c rs))) = t" "staleTicks (sess (fst (run c rs))) = 5"
    using run_carries_count [OF assms(1,2)] assms(3) by simp_all
  have "reloaded (snd (refresh (fst (run c rs)) (Parsed d)))"
    using st assms(4,5) by (simp add: reloaded_refresh stale_after)
  with quiet show ?thesis
    by (simp add: run_snoc)
qed

lemma carries_replicate: "carries t (replicate n (Parsed d)) = (n = 0 \<or> timestamp d = t)"
  by (induction n) (auto simp: carries_def)

text \<open>
  Claim C1, as amended. On every parsed snapshot: if its timestamp equals
  \<open>lastTimestamp\<close> then \<open>staleTicks\<close> goes up by one, otherwise \<open>staleTicks\<close> becomes 0
  and \<open>lastTimestamp\<close> the new timestamp. Counting from a tick that left \<open>staleTicks\<close>
  at 0, the reload is asked for exactly once in the next six ticks whose timestamp
  equals the stored one: on the sixth, when that tick runs to completion (its snapshot
  has the learning record), and on none of the five before it.
\<close>

theorem staleness_state_machine:
  assumes "carries (lastTimestamp (sess c)) rs" and "length rs = 5"
    and "staleTicks (sess c) = 0"
    and "timestamp d = lastTimestamp (sess c)" and "learning d \<noteq> None"
  shows "(let s = sess c0; s' = sess (fst (refresh c0 (Parsed d0)))
          in if timestamp d0 = lastTimestamp s
             then staleTicks s' = staleTicks s + 1 \<and> lastTimestamp s' = lastTimestamp s
             else staleTicks s' = 0 \<and> lastTimestamp s' = timestamp d0) \<and>
         map reloaded (snd (run c (rs @ [Parsed d]))) =
           [False, False, False, False, False, True]"
proof -
  have "map reloaded (snd (run c (rs @ [Parsed d]))) = replicate (length rs) False @ [True]"
    using assms by (intro run_carries_reload [where t = "lastTimestamp (sess c)"]) simp_all
  then have "map reloaded (snd (run c (rs @ [Parsed d]))) =
      [False, False, False, False, False, True]"
    using assms(2) by (simp add: numeral_eq_Suc)
  then show ?thesis
    by (simp add: Let_def sess_refresh stale_after)
qed

theorem staleness_state_machine_witness:
  "(let c = fst (refresh (init_client blank_page) (Parsed (bare_snapshot\<lparr>timestamp := JStr ''T''\<rparr>)));
        rs = replicate 5 (Parsed (bare_snapshot\<lparr>timestamp := JStr ''T''\<rparr>));
        d = bare_snapshot\<lparr>timestamp := JStr ''T'', learning := Some some_learning\<rparr>
    in carries (lastTimestamp (sess c)) rs \<and> length rs = 5 \<and> staleTicks (sess c) = 0 \<and>
       timestamp d = lastTimestamp (sess c) \<and> learning d \<noteq> None \<and>
       staleTicks (sess (fst (refresh c (Parsed d)))) = 1 \<and>
       map reloaded (snd (run c (rs @ [Parsed d]))) =
         [False, False, False, False, False, True])"
proof -
  define c where
    "c = fst (refresh (init_client blank_page) (Parsed (bare_snapshot\<lparr>timestamp := JStr ''T''\<rparr>)))"
  define rs where "rs = replicate 5 (Parsed (bare_snapshot\<lparr>timestamp := JStr ''T''\<rparr>))"
  define d where "d = bare_snapshot\<lparr>timestamp := JStr ''T'', learning := Some some_learning\<rparr>"
  have c: "lastTimestamp (sess c) = JStr ''T''" "staleTicks (sess c) = 0"
    by (simp_all add: c_def sess_refresh stale_after init_client_def init_session_def)
  have h1: "carries (lastTimestamp (sess c)) rs"
    by (simp add: c rs_def carries_replicate)
  have h2: "length rs = 5" by (simp add: rs_def)
  have h4: "timestamp d = lastTimestamp (sess c)" by (simp add: c d_def)
  have h5: "learning d \<noteq> None" by (simp add: d_def)
  from staleness_state_machine [OF h1 h2 c(2) h4 h5, of c d] h1 h2 c h4 h5
  show ?thesis
    unfolding c_def [symmetric] rs_def [symmetric] d_def [symmetric]
    by (simp add: Let_def)
qed

text \<open>
  Six consecutive snapshots with one and the same timestamp, each rendered to completion
  by a fresh client: the first one stores the timestamp, the other five count as stale,
  and no reload is asked for.
\<close>

theorem six_identical_timestamps_no_reset:
  "map reloaded (snd (run (init_client blank_page)
      (replicate 6 (Parsed (bare_snapshot\<lparr>timestamp := JStr ''T'', learning := Some some_learning\<rparr>)))))
    = [False, False, False, False, False, False]"
proof -
  define d where "d = bare_snapshot\<lparr>timestamp := JStr ''T'', learning := Some some_learning\<rparr>"
  define c where "c = fst (refresh (init_client blank_page) (Parsed d))"
  have c: "lastTimestamp (sess c) = JStr ''T''" "staleTicks (sess c) = 0"
    by (simp_all add: c_def d_def sess_refresh stale_after init_client_def init_session_def)
  have first: "\<not> reloaded (snd (refresh (init_client blank_page) (Parsed d)))"
    by (simp add: d_def reloaded_refresh stale_after init_client_def init_session_def)
  have "carries (JStr ''T'') (replicate 5 (Parsed d))"
    by (simp add: carries_replicate d_def)
  from run_carries_quiet [OF this c(1)] c(2)
  have rest: "map reloaded (snd (run c (replicate 5 (Parsed d)))) = replicate 5 False"
    by simp
  have "replicate 6 (Parsed d) = Parsed d # replicate 5 (Parsed d)"
    by (simp add: numeral_eq_Suc)
  then have "map reloaded (snd (run (init_client blank_page) (replicate 6 (Parsed d)))) =
      reloaded (snd (refresh (init_client blank_page) (Parsed d)))
        # map reloaded (snd (run c (replicate 5 (Parsed d))))"
    by (simp add: case_prod_beta Let_def c_def)
  with first rest show ?thesis
    unfolding d_def by (simp add: numeral_eq_Suc)
qed


text \<open>
  Claim C10, as amended. \<open>lastTimestamp\<close> starts as the empty string, so a first snapshot
  whose timestamp is the empty string counts as stale at once. A snapshot without a
  timestamp stores the absent value, and a second such snapshot right after it compares
  equal and counts one stale tick. A fresh client asks for the reload on the seventh of
  seven consecutive snapshots without a timestamp, when that tick runs to completion,
  and on none of the first six: the first stores the absent value, each of the next six
  counts one.
\<close>

theorem absent_timestamp_counts_stale:
  assumes "carries JUndefined rs" and "length rs = 6"
    and "timestamp d = JUndefined" and "learning d \<noteq> None"
  shows "staleTicks (sess (fst (refresh (init_client p) (Parsed (d0\<lparr>timestamp := JStr ''''\<rparr>))))) = 1 \<and>
         lastTimestamp (sess (fst (refresh c (Parsed (d1\<lparr>timestamp := JUndefined\<rparr>))))) = JUndefined \<and>
         staleTicks (sess (fst (refresh (fst (refresh c (Parsed (d1\<lparr>timestamp := JUndefined\<rparr>))))
             (Parsed (d2\<lparr>timestamp := JUndefined\<rparr>))))) =
           staleTicks (sess (fst (refresh c (Parsed (d1\<lparr>timestamp := JUndefined\<rparr>))))) + 1 \<and>
         map reloaded (snd (run (init_client p) (rs @ [Parsed d]))) =
           [False, False, False, False, False, False, True]"
proof -
  from assms(2) obtain r rs' where rs: "rs = r # rs'" and len: "length rs' = 5"
    by (cases rs) simp_all
  from assms(1) rs obtain d' where r: "r = Parsed d'" and td: "timestamp d' = JUndefined"
    and rest: "carries JUndefined rs'"
    by (auto simp: carries_def split: response.splits)
  define c1 where "c1 = fst (refresh (init_client p) r)"
  have c1: "lastTimestamp (sess c1) = JUndefined" "staleTicks (sess c1) = 0"
    by (simp_all add: c1_def r td sess_refresh stale_after init_client_def init_session_def)
  have first: "\<not> reloaded (snd (refresh (init_client p) r))"
    by (simp add: r td reloaded_refresh stale_after init_client_def init_session_def)
  have "map reloaded (snd (run c1 (rs' @ [Parsed d]))) = replicate (length rs') False @ [True]"
    using rest c1 len assms(3,4) by (intro run_carries_reload [where t = JUndefined]) simp_all
  then have tail: "map reloaded (snd (run c1 (rs' @ [Parsed d]))) =
      [False, False, False, False, False, True]"
    using len by (simp add: numeral_eq_Suc)
  have "map reloaded (snd (run (init_client p) (rs @ [Parsed d]))) =
      reloaded (snd (refresh (init_client p) r)) # map reloaded (snd (run c1 (rs' @ [Parsed d])))"
    by (simp add: rs case_prod_beta Let_def c1_def)
  with first tail have run: "map reloaded (snd (run (init_client p) (rs @ [Parsed d]))) =
      [False, False, False, False, False, False, True]"
    by simp
  have first_empty:
    "staleTicks (sess (fst (refresh (init_client p) (Parsed (d0\<lparr>timestamp := JStr ''''\<rparr>))))) = 1"
    by (simp add: sess_refresh stale_after init_client_def init_session_def)
  have stored:
    "lastTimestamp (sess (fst (refresh c (Parsed (d1\<lparr>timestamp := JUndefined\<rparr>))))) = JUndefined"
    by (simp add: sess_refresh stale_after)
  have second:
    "staleTicks (sess (fst (refresh (fst (refresh c (Parsed (d1\<lparr>timestamp := JUndefined\<rparr>))))
             (Parsed (d2\<lparr>timestamp := JUndefined\<rparr>))))) =
           staleTicks (sess (fst (refresh c (Parsed (d1\<lparr>timestamp := JUndefined\<rparr>))))) + 1"
    by (simp add: sess_refresh stale_after)
  from first_empty stored second run show ?thesis
    by (intro conjI)
qed

theorem absent_timestamp_counts_stale_witness:
  "carries JUndefined (replicate 6 (Parsed bare_snapshot)) \<and>
   length (replicate 6 (Parsed bare_snapshot)) = 6 \<and>
   timestamp (bare_snapshot\<lparr>learning := Some some_learning\<rparr>) = JUndefined \<and>
   learning (bare_snapshot\<lparr>learning := Some some_learning\<rparr>) \<noteq> None \<and>
   map reloaded (snd (run (init_client blank_page)
       (replicate 6 (Parsed bare_snapshot)
          @ [Parsed (bare_snapshot\<lparr>learning := Some some_learning\<rparr>)]))) =
     [False, False, False, False, False, False, True]"
proof -
  have h1: "carries JUndefined (replicate 6 (Parsed bare_snapshot))"
    by (simp add: carries_replicate bare_snapshot_def)
  have h2: "length (replicate 6 (Parsed bare_snapshot)) = 6" by simp
  have h3: "timestamp (bare_snapshot\<lparr>learning := Some some_learning\<rparr>) = JUndefined"
    by (simp add: bare_snapshot_def)
  have h4: "learning (bare_snapshot\<lparr>learning := Some some_learning\<rparr>) \<noteq> None"
    by simp
  from absent_timestamp_counts_stale [OF h1 h2 h3 h4, of blank_page] h1 h2 h3 h4
  show ?thesis by simp
qed

text \<open>
  Six consecutive snapshots without a timestamp, each rendered to completion by a fresh
  client, do not bring the reload about.
\<close>

theorem six_absent_timestamps_no_reset:
  "map reloaded (snd (run (init_client blank_page)
      (replicate 6 (Parsed (bare_snapshot\<lparr>learning := Some some_learning\<rparr>)))))
    = [False, False, False, False, False, False]"
proof -
  define d where "d = bare_snapshot\<lparr>learning := Some some_learning\<rparr>"
  define c where "c = fst (refresh (init_client blank_page) (Parsed d))"
  have td: "timestamp d = JUndefined" by (simp add: d_def bare_snapshot_def)
  have c: "lastTimestamp (sess c) = JUndefined" "staleTicks (sess c) = 0"
    by (simp_all add: c_def td sess_refresh stale_after init_client_def init_session_def)
  have first: "\<not> reloaded (snd (refresh (init_client blank_page) (Parsed d)))"
    by (simp add: td reloaded_refresh stale_after init_client_def init_session_def)
  have "carries JUndefined (replicate 5 (Parsed d))"
    by (simp add: carries_replicate td)
  from run_carries_quiet [OF this c(1)] c(2)
  have rest: "map reloaded (snd (run c (replicate 5 (Parsed d)))) = replicate 5 False"
    by simp
  have "replicate 6 (Parsed d) = Parsed d # replicate 5 (Parsed d)"
    by (simp add: numeral_eq_Suc)
  then have "map reloaded (snd (run (init_client blank_page) (replicate 6 (Parsed d)))) =
      reloaded (snd (refresh (init_client blank_page) (Parsed d)))
        # map reloaded (snd (run c (replicate 5 (Parsed d))))"
    by (simp add: case_prod_beta Let_def c_def)
  with first rest show ?thesis
    unfolding d_def by (simp add: numeral_eq_Suc)
qed

section \<open>Shape tolerance\<close>

lemma display_refresh_thrown:
  "learning d = None \<Longrightarrow>
     display (fst (refresh c (Parsed d))) = show_classification d (show_header d (display c))"
  by (simp add: refresh_def refresh_try_def Let_def)

text \<open>
  Claim C3 says that a snapshot lacking \<open>learning\<close> is still rendered in full. The code
  reads \<open>data.learning.alpha_aggression\<close> unguarded: without the record the tick throws
  there, after the staleness update, and the \<open>catch\<close> clause logs the error. The
  timeline, the feed, the messages, the entity panels and the three charts keep what
  they showed, the buffers do not advance, and the reload check is never reached,
  whatever \<open>staleTicks\<close> has become.
\<close>

theorem learning_absent_aborts_tick:
  "(let d' = d\<lparr>learning := None\<rparr>;
        c' = fst (refresh c (Parsed d'));
        rep = snd (refresh c (Parsed d'))
    in rep = \<lparr>reloaded = False, logged = True, completed = False\<rparr> \<and>
       timeline_el (display c') = timeline_el (display c) \<and>
       feed_el (display c') = feed_el (display c) \<and>
       messages_el (display c') = messages_el (display c) \<and>
       alpha_metrics_el (display c') = alpha_metrics_el (display c) \<and>
       beta_metrics_el (display c') = beta_metrics_el (display c) \<and>
       gamma_metrics_el (display c') = gamma_metrics_el (display c) \<and>
       trade_flow_drawn (display c') = trade_flow_drawn (display c) \<and>
       heatmap_el (display c') = heatmap_el (display c) \<and>
       welfare_drawn (display c') = welfare_drawn (display c) \<and>
       welfareAlpha (sess c') = welfareAlpha (sess c) \<and>
       staleTicks (sess c') =
         (if timestamp d = lastTimestamp (sess c) then staleTicks (sess c) + 1 else 0))"
  by (simp add: Let_def report_refresh display_refresh_thrown sess_refresh stale_after
      sess_after_def track_staleness_def show_classification_def show_header_def)

section \<open>Messages panel\<close>

text \<open>
  Claim C6 says that the messages panel never renders an empty container. The
  placeholder is decided on the event list before the topic filter runs: an event list
  that is not empty but holds no event of an allowed topic renders no item at all.
\<close>

theorem messages_placeholder_missed:
  "renderMessages [e\<lparr>ev_topic := JStr ''other''\<rparr>] = []"
  by (simp add: renderMessages_def allowed_topic_def)

text \<open>
  What does hold of the messages panel: of a non-empty event list it shows the events of
  an allowed topic, most recent first, at most twelve of them.
\<close>

lemma renderMessages_shown:
  "evs \<noteq> [] \<Longrightarrow>
     renderMessages evs = map event_li (take 12 (rev (filter allowed_topic evs)))"
  by (simp add: renderMessages_def)


section \<open>Charts\<close>

lemma math_max_Max: "math_max vs k = Max (insert k (set vs))"
  using Max.set_eq_fold [of k vs] by (simp add: math_max_def)

lemma math_min_Min: "math_min vs k = Min (insert k (set vs))"
  using Min.set_eq_fold [of k vs] by (simp add: math_min_def)

lemma set_numbers: "set (numbers vs) = {x. JNum x \<in> set vs}"
  by (induction vs rule: numbers.induct) auto

lemma drawWelfare_scale:
  "minValue (drawWelfare cv h) =
     math_min (numbers (welfareAlpha h @ welfareBeta h @ welfareGamma h)) 80"
  "maxValue (drawWelfare cv h) =
     math_max (numbers (welfareAlpha h @ welfareBeta h @ welfareGamma h)) 100"
  "range (drawWelfare cv h) = max 1 (maxValue (drawWelfare cv h) - minValue (drawWelfare cv h))"
  "xStep (drawWelfare cv h) = (width cv - 60) / real (max (length (welfareAlpha h)) 2 - 1)"
  by (simp_all add: drawWelfare_def Let_def)

text \<open>
  Claim C5. For every state of the three history buffers, with \<open>vals\<close> the numbers among
  their values: the lower bound of the welfare chart is the least of \<open>vals\<close> and 80, the
  upper bound the greatest of \<open>vals\<close> and 100, the range is \<open>max 1 (upper - lower)\<close>, and
  the step is the drawable width (the canvas width less 30 on either side) divided by
  the intervals between \<open>max (buffer length) 2\<close> points. When all numbers lie in
  \<open>[85, 95]\<close> the bounds are 80 and 100; when 110 is among them and none is greater, the
  upper bound is 110.
\<close>

theorem welfare_chart_scale:
  "(let ch = drawWelfare cv h;
        vals = {x. JNum x \<in> set (welfareAlpha h @ welfareBeta h @ welfareGamma h)}
    in minValue ch = Min (insert 80 vals) \<and>
       maxValue ch = Max (insert 100 vals) \<and>
       range ch = max 1 (maxValue ch - minValue ch) \<and>
       xStep ch = (width cv - 2 * 30) / real (max (length (welfareAlpha h)) 2 - 1) \<and>
       ((\<forall>x \<in> vals. 85 \<le> x \<and> x \<le> 95) \<longrightarrow> minValue ch = 80 \<and> maxValue ch = 100) \<and>
       (110 \<in> vals \<and> (\<forall>x \<in> vals. x \<le> 110) \<longrightarrow> maxValue ch = 110))"
proof -
  define vals where "vals = {x. JNum x \<in> set (welfareAlpha h @ welfareBeta h @ welfareGamma h)}"
  define ch where "ch = drawWelfare cv h"
  have fin: "finite vals"
    unfolding vals_def set_numbers [symmetric] by simp
  have lo: "minValue ch = Min (insert 80 vals)"
    by (simp add: ch_def vals_def drawWelfare_scale math_min_Min set_numbers)
  have hi: "maxValue ch = Max (insert 100 vals)"
    by (simp add: ch_def vals_def drawWelfare_scale math_max_Max set_numbers)
  have rng: "range ch = max 1 (maxValue ch - minValue ch)"
    by (simp add: ch_def drawWelfare_scale)
  have step: "xStep ch = (width cv - 2 * 30) / real (max (length (welfareAlpha h)) 2 - 1)"
    by (simp add: ch_def drawWelfare_scale)
  have band: "minValue ch = 80 \<and> maxValue ch = 100" if "\<forall>x \<in> vals. 85 \<le> x \<and> x \<le> 95"
  proof
    have "Min (insert 80 vals) = 80"
      using fin that by (intro Min_eqI) auto
    then show "minValue ch = 80" by (simp add: lo)
    have "Max (insert 100 vals) = 100"
      using fin that by (intro Max_eqI) auto
    then show "maxValue ch = 100" by (simp add: hi)
  qed
  have peak: "maxValue ch = 110" if "110 \<in> vals \<and> (\<forall>x \<in> vals. x \<le> 110)"
  proof -
    have "Max (insert 100 vals) = 110"
      using fin that by (intro Max_eqI) auto
    then show ?thesis by (simp add: hi)
  qed
  from lo hi rng step band peak show ?thesis
    unfolding Let_def ch_def [symmetric] vals_def [symmetric] by blast
qed

theorem welfare_chart_scale_witness:
  "(let h1 = init_session\<lparr>welfareAlpha := [JNum 85, JNum 95],
                           welfareBeta := [JNum 90, JUndefined],
                           welfareGamma := [JNum 88, JNum 91]\<rparr>;
        h2 = init_session\<lparr>welfareAlpha := [JNum 85, JNum 110],
                           welfareBeta := [JNum 90, JNum 95],
                           welfareGamma := [JNull, JNum 91]\<rparr>;
        cv = \<lparr>width = 300, height = 150\<rparr>
    in minValue (drawWelfare cv h1) = 80 \<and> maxValue (drawWelfare cv h1) = 100 \<and>
       range (drawWelfare cv h1) = 20 \<and> xStep (drawWelfare cv h1) = 240 \<and>
       minValue (drawWelfare cv h2) = 80 \<and> maxValue (drawWelfare cv h2) = 110 \<and>
       range (drawWelfare cv h2) = 30)"
proof -
  define h1 where "h1 = init_session\<lparr>welfareAlpha := [JNum 85, JNum 95],
                           welfareBeta := [JNum 90, JUndefined],
                           welfareGamma := [JNum 88, JNum 91]\<rparr>"
  define h2 where "h2 = init_session\<lparr>welfareAlpha := [JNum 85, JNum 110],
                           welfareBeta := [JNum 90, JNum 95],
                           welfareGamma := [JNull, JNum 91]\<rparr>"
  define cv :: canvas where "cv = \<lparr>width = 300, height = 150\<rparr>"
  have v1: "{x. JNum x \<in> set (welfareAlpha h1 @ welfareBeta h1 @ welfareGamma h1)} =
      {85, 95, 90, 88, 91}"
    by (auto simp: h1_def)
  have v2: "{x. JNum x \<in> set (welfareAlpha h2 @ welfareBeta h2 @ welfareGamma h2)} =
      {85, 110, 90, 95, 91}"
    by (auto simp: h2_def)
  from welfare_chart_scale [of cv h1] welfare_chart_scale [of cv h2]
  show ?thesis
    unfolding h1_def [symmetric] h2_def [symmetric] cv_def [symmetric]
    unfolding Let_def v1 v2
    by (simp add: h1_def cv_def)
qed


text \<open>
  The polylines take every buffered value through the number coercion: \<open>null\<close> is
  drawn as 0 and \<open>true\<close> as 1, \<open>undefined\<close> has no ordinate.
\<close>

lemma drawLine_coerces:
  "drawLine \<lparr>width = 300, height = 150\<rparr> 240 80 20 [JNull, JBool True, JUndefined, JNum 90] =
     [(30, Y 480), (270, Y (951 / 2)), (510, NoY), (750, Y 75)]"
  by (simp add: drawLine_def to_number_def enumerate_eq_zip upt_rec)

lemma math_max_ge_one: "1 \<le> math_max vs 1"
  by (simp add: math_max_Max)

lemma math_max_ge: "v \<in> set vs \<Longrightarrow> v \<le> math_max vs k"
  by (simp add: math_max_Max)

lemma renderHeatmap_cells:
  "renderHeatmap tf =
     map (\<lambda>(sec, v). \<lparr>sector = sec, cell_value = v,
            intensity = min 0.85 (0.2 + v / math_max (map snd tf) 1)\<rparr>) tf"
  by (simp add: renderHeatmap_def Let_def)

text \<open>
  Claim C8, as amended. For every trade-flow mapping, with \<open>mx\<close> the greatest of its
  values and 1, the heatmap has one cell per sector, in the order of the mapping, of
  intensity \<open>min 0.85 (0.2 + value / mx)\<close>. No intensity is above 0.85; a sector whose
  value is \<open>mx\<close> has intensity 0.85, a sector of value 0 has intensity 0.2, and a
  sector whose value is not negative has an intensity of at least 0.2.
\<close>

theorem heatmap_intensity:
  "(let mx = Max (insert 1 (snd ` set tf))
    in renderHeatmap tf =
         map (\<lambda>(sec, v). \<lparr>sector = sec, cell_value = v,
                intensity = min 0.85 (0.2 + v / mx)\<rparr>) tf \<and>
       (\<forall>c \<in> set (renderHeatmap tf).
          intensity c \<le> 0.85 \<and>
          (cell_value c = mx \<longrightarrow> intensity c = 0.85) \<and>
          (cell_value c = 0 \<longrightarrow> intensity c = 0.2) \<and>
          (0 \<le> cell_value c \<longrightarrow> 0.2 \<le> intensity c)))"
proof -
  define mx where "mx = Max (insert 1 (snd ` set tf))"
  have mx: "mx = math_max (map snd tf) 1"
    by (simp add: mx_def math_max_Max)
  have pos: "1 \<le> mx"
    by (simp add: mx math_max_ge_one)
  have cells: "renderHeatmap tf =
         map (\<lambda>(sec, v). \<lparr>sector = sec, cell_value = v,
                intensity = min 0.85 (0.2 + v / mx)\<rparr>) tf"
    by (simp add: renderHeatmap_cells mx)
  have each: "intensity c \<le> 0.85 \<and>
          (cell_value c = mx \<longrightarrow> intensity c = 0.85) \<and>
          (cell_value c = 0 \<longrightarrow> intensity c = 0.2) \<and>
          (0 \<le> cell_value c \<longrightarrow> 0.2 \<le> intensity c)"
    if "c \<in> set (renderHeatmap tf)" for c
  proof -
    from that cells obtain sec v where
      c: "c = \<lparr>sector = sec, cell_value = v, intensity = min 0.85 (0.2 + v / mx)\<rparr>"
      by auto
    have "0 \<le> v / mx" if "0 \<le> v"
      using that pos by simp
    then show ?thesis
      using pos by (auto simp: c min_def)
  qed
  from cells each show ?thesis
    unfolding Let_def mx_def [symmetric] by blast
qed

theorem heatmap_intensity_witness:
  "Max (insert 1 (snd ` set [(''electronics'', 10 :: real), (''energy'', 0)])) = 10 \<and>
   map cell_value (renderHeatmap [(''electronics'', 10), (''energy'', 0)]) = [10, 0] \<and>
   map intensity (renderHeatmap [(''electronics'', 10), (''energy'', 0)]) = [0.85, 0.2]"
  using heatmap_intensity [of "[(''electronics'', 10), (''energy'', 0)]"]
  by (simp add: Let_def)

text \<open>
  There is no lower clamp: a sector with a negative value gets an intensity below the
  offset of 0.2.
\<close>

theorem negative_flow_below_offset:
  "intensity (hd (renderHeatmap [(''steel'', - 1)])) < 0.2"
  by (simp add: renderHeatmap_def math_max_def Let_def)


section \<open>The page after a completed tick\<close>

lemma display_refresh_completed:
  "learning d = Some l \<Longrightarrow>
     display (fst (refresh c (Parsed d))) =
       show_charts d (sess_after d (sess c))
         (show_status d (show_countries d (show_lists d (show_learning l
            (show_classification d (show_header d (display c)))))))"
  by (simp add: refresh_def refresh_try_def sess_after_def Let_def)

lemma show_charts_regions:
  "trade_flow_drawn (show_charts d s p) =
     drawTradeFlow (trade_flow_canvas p) (or_empty (trade_flow d))"
  "heatmap_el (show_charts d s p) = renderHeatmap (or_empty (trade_flow d))"
  by (simp_all add: show_charts_def)

text \<open>
  Claim C9. Given an empty trade-flow mapping, the bar chart draws no bar on the cleared
  canvas and the heatmap appends no cell to the emptied container; the maximum falls
  back to 1, and the bar width, a division by the sector count 0, is not finite but
  enters nothing that is drawn. A tick that gets past the learning fields hands both
  renderers the empty mapping when \<open>trade_flow\<close> is absent as well as when it is empty,
  and ends normally, with nothing logged.
\<close>

theorem empty_trade_flow_draws_nothing:
  "drawTradeFlow cv [] = [] \<and> renderHeatmap [] = [] \<and>
   math_max (map snd ([] :: (string \<times> real) list)) 1 = 1 \<and>
   js_div (width cv - 40) (real (length (map fst ([] :: (string \<times> real) list)))) = None \<and>
   (let absent = refresh c (Parsed (d\<lparr>learning := Some l, trade_flow := None\<rparr>));
        empty = refresh c (Parsed (d\<lparr>learning := Some l, trade_flow := Some []\<rparr>))
    in completed (snd absent) \<and> \<not> logged (snd absent) \<and>
       trade_flow_drawn (display (fst absent)) = [] \<and> heatmap_el (display (fst absent)) = [] \<and>
       completed (snd empty) \<and> \<not> logged (snd empty) \<and>
       trade_flow_drawn (display (fst empty)) = [] \<and> heatmap_el (display (fst empty)) = [])"
proof -
  have r: "drawTradeFlow cv' [] = []" "renderHeatmap [] = []" for cv'
    by (simp_all add: drawTradeFlow_def renderHeatmap_def Let_def enumerate_eq_zip)
  have m: "math_max (map snd ([] :: (string \<times> real) list)) 1 = 1"
    by (simp add: math_max_def)
  have j: "js_div (width cv - 40) (real (length (map fst ([] :: (string \<times> real) list)))) = None"
    by (simp add: js_div_def)
  have t: "completed (snd (refresh c (Parsed (d\<lparr>learning := Some l, trade_flow := tf\<rparr>))))"
    "\<not> logged (snd (refresh c (Parsed (d\<lparr>learning := Some l, trade_flow := tf\<rparr>))))" for tf
    by (simp_all add: report_refresh)
  have a: "trade_flow_drawn
        (display (fst (refresh c (Parsed (d\<lparr>learning := Some l, trade_flow := tf\<rparr>))))) = []"
    "heatmap_el (display (fst (refresh c (Parsed (d\<lparr>learning := Some l, trade_flow := tf\<rparr>))))) = []"
    if "or_empty tf = []" for tf
    using that
    by (simp_all add: display_refresh_completed [where l = l] show_charts_regions r)
  have e: "or_empty (None :: (string \<times> real) list option) = []"
    "or_empty (Some ([] :: (string \<times> real) list)) = []"
    by (simp_all add: or_empty_def)
  from r m j t a [OF e(1)] a [OF e(2)] show ?thesis
    unfolding Let_def by (intro conjI)
qed

section \<open>Entity metrics\<close>


lemma is_digit_digit: "is_digit (digit n)"
  unfolding is_digit_def digit_def by (rule nth_mem) simp

lemma decimal_digits: "list_all is_digit (decimal n) \<and> decimal n \<noteq> []"
proof (induction n rule: decimal.induct)
  case (1 n)
  show ?case
  proof (cases "n < 10")
    case True
    then show ?thesis by (simp add: decimal.simps [of n] is_digit_digit)
  next
    case False
    with 1 show ?thesis by (simp add: decimal.simps [of n] is_digit_digit)
  qed
qed

lemma is_digit_not_minus: "is_digit ch \<Longrightarrow> ch \<noteq> CHR ''-''"
  by (auto simp: is_digit_def)

lemma two_decimals_digits:
  assumes "list_all is_digit ds" and "ds \<noteq> []" and "is_digit a" and "is_digit b"
  shows "two_decimals (ds @ ''.'' @ [a, b])" and "two_decimals (''-'' @ ds @ ''.'' @ [a, b])"
proof -
  from assms(2) have len: "1 \<le> length ds"
    by (cases ds) simp_all
  from assms(1,2) have "hd ds \<noteq> CHR ''-''"
    by (cases ds) (auto dest: is_digit_not_minus)
  with assms len show "two_decimals (ds @ ''.'' @ [a, b])"
    by (simp add: two_decimals_def Let_def hd_append)
  from assms len show "two_decimals (''-'' @ ds @ ''.'' @ [a, b])"
    by (simp add: two_decimals_def Let_def)
qed

lemma two_decimals_fixed2: "two_decimals (fixed2 x)"
  using two_decimals_digits [OF conjunct1 [OF decimal_digits] conjunct2 [OF decimal_digits]
      is_digit_digit is_digit_digit]
  by (simp add: fixed2_def Let_def)


lemma show_countries_panels:
  "alpha_metrics_el (show_countries d p) =
     panel_after d ''Country Alpha'' ''alpha'' (alpha_metrics_el p)"
  "beta_metrics_el (show_countries d p) =
     panel_after d ''Country Beta'' ''beta'' (beta_metrics_el p)"
  "gamma_metrics_el (show_countries d p) =
     panel_after d ''Country Gamma'' ''gamma'' (gamma_metrics_el p)"
  by (auto simp: show_countries_def panel_after_def Let_def split: option.split)

lemma panels_kept_before:
  "alpha_metrics_el (show_lists d (show_learning l (show_classification d (show_header d p)))) =
     alpha_metrics_el p"
  "beta_metrics_el (show_lists d (show_learning l (show_classification d (show_header d p)))) =
     beta_metrics_el p"
  "gamma_metrics_el (show_lists d (show_learning l (show_classification d (show_header d p)))) =
     gamma_metrics_el p"
  by (simp_all add: show_lists_def show_learning_def show_classification_def show_header_def
      Let_def)

lemma panels_kept_after:
  "alpha_metrics_el (show_charts d s (show_status d p)) = alpha_metrics_el p"
  "beta_metrics_el (show_charts d s (show_status d p)) = beta_metrics_el p"
  "gamma_metrics_el (show_charts d s (show_status d p)) = gamma_metrics_el p"
  by (simp_all add: show_charts_def show_status_def Let_def split: option.split)

lemma panels_after_tick:
  assumes "learning d = Some l"
  shows "alpha_metrics_el (display (fst (refresh c (Parsed d)))) =
           panel_after d ''Country Alpha'' ''alpha'' (alpha_metrics_el (display c))"
    and "beta_metrics_el (display (fst (refresh c (Parsed d)))) =
           panel_after d ''Country Beta'' ''beta'' (beta_metrics_el (display c))"
    and "gamma_metrics_el (display (fst (refresh c (Parsed d)))) =
           panel_after d ''Country Gamma'' ''gamma'' (gamma_metrics_el (display c))"
  by (simp_all only: display_refresh_completed [OF assms] panels_kept_after show_countries_panels
      panels_kept_before)

lemma renderCountryMetrics_card:
  "gdp m \<noteq> JUndefined \<Longrightarrow>
     renderCountryMetrics (Some m) =
       PanelCard
         \<lparr>kpi_gdp = formatNumber (gdp m),
          kpi_welfare = formatNumber (welfare m),
          kpi_pressure = formatNumber (political_pressure m),
          tbl_exports = map (\<lambda>(k, v). (k, formatNumber v)) (or_empty (exports m)),
          tbl_imports = map (\<lambda>(k, v). (k, formatNumber v)) (or_empty (imports m)),
          tbl_tariffs = map (\<lambda>(k, v). (k, formatNumber v)) (or_empty (tariffs m))\<rparr>"
  by (simp add: renderCountryMetrics_def table_def)

lemma formatNumber_cases:
  "\<bar>x\<bar> < 10 ^ 21 \<Longrightarrow> formatNumber (JNum x) = S (fixed2 x)"
  "(\<forall>y. v \<noteq> JNum y) \<Longrightarrow> formatNumber v = V v"
  by (auto simp: formatNumber_def split: jsval.split)

text \<open>
  Claim C7, as amended. On a tick that gets past the learning fields, each entity panel
  is rendered anew only when the snapshot has a record for the entity, under its full
  name or its alias; otherwise (no \<open>countries\<close> mapping, or no record in it) the panel
  keeps what it showed. The renderer shows the single text \<open>No data available.\<close>, and
  no KPI and no table, when it is given no record or a record without \<open>gdp\<close>. Given a
  record with \<open>gdp\<close> it shows the three KPI values and the exports, imports and tariffs
  tables, the entries in the order in which \<open>Object.entries\<close> enumerates the source
  mapping, an absent mapping giving an empty table. A number below \<open>10^21\<close> in magnitude is printed with exactly two decimal
  places; a value that is not a number is passed on as it is.
\<close>

theorem entity_metrics_rendering:
  assumes "learning d \<noteq> None"
  shows
    "alpha_metrics_el (display (fst (refresh c (Parsed d)))) =
       panel_after d ''Country Alpha'' ''alpha'' (alpha_metrics_el (display c)) \<and>
     beta_metrics_el (display (fst (refresh c (Parsed d)))) =
       panel_after d ''Country Beta'' ''beta'' (beta_metrics_el (display c)) \<and>
     gamma_metrics_el (display (fst (refresh c (Parsed d)))) =
       panel_after d ''Country Gamma'' ''gamma'' (gamma_metrics_el (display c)) \<and>
     renderCountryMetrics None = PanelText ''No data available.'' \<and>
     renderCountryMetrics (Some (m\<lparr>gdp := JUndefined\<rparr>)) = PanelText ''No data available.'' \<and>
     (gdp m \<noteq> JUndefined \<longrightarrow>
        renderCountryMetrics (Some m) =
          PanelCard
            \<lparr>kpi_gdp = formatNumber (gdp m),
             kpi_welfare = formatNumber (welfare m),
             kpi_pressure = formatNumber (political_pressure m),
             tbl_exports = map (\<lambda>(k, v). (k, formatNumber v)) (or_empty (exports m)),
             tbl_imports = map (\<lambda>(k, v). (k, formatNumber v)) (or_empty (imports m)),
             tbl_tariffs = map (\<lambda>(k, v). (k, formatNumber v)) (or_empty (tariffs m))\<rparr>) \<and>
     (\<bar>x\<bar> < 10 ^ 21 \<longrightarrow> formatNumber (JNum x) = S (fixed2 x) \<and> two_decimals (fixed2 x)) \<and>
     ((\<forall>y. v \<noteq> JNum y) \<longrightarrow> formatNumber v = V v) \<and>
     or_empty (None :: (string \<times> jsval) list option) = []"
proof -
  from assms obtain l where l: "learning d = Some l" by auto
  have absent: "renderCountryMetrics None = PanelText ''No data available.''"
    "renderCountryMetrics (Some (m\<lparr>gdp := JUndefined\<rparr>)) = PanelText ''No data available.''"
    by (simp_all add: renderCountryMetrics_def)
  have none: "or_empty (None :: (string \<times> jsval) list option) = []"
    by (simp add: or_empty_def)
  from panels_after_tick [OF l] absent renderCountryMetrics_card [of m]
    formatNumber_cases(1) [of x] formatNumber_cases(2) [of v] two_decimals_fixed2 [of x] none
  show ?thesis by blast
qed

text \<open>The formatter on a few numbers.\<close>

lemma fixed2_examples:
  "fixed2 100 = ''100.00''" "fixed2 90 = ''90.00''" "fixed2 2 = ''2.00''"
proof -
  have d: "decimal 100 = ''100''" "decimal 90 = ''90''" "decimal 2 = ''2''"
    by (simp_all add: decimal.simps [of 100] decimal.simps [of 90] decimal.simps [of 10]
        decimal.simps [of 9] decimal.simps [of "Suc 0"] decimal.simps [of 2] digit_def)
  have n: "nat \<lfloor>\<bar>100 :: real\<bar> * 100 + 1 / 2\<rfloor> = 10000"
    "nat \<lfloor>\<bar>90 :: real\<bar> * 100 + 1 / 2\<rfloor> = 9000"
    "nat \<lfloor>\<bar>2 :: real\<bar> * 100 + 1 / 2\<rfloor> = 200"
    by (simp_all add: floor_eq_iff nat_eq_iff)
  show "fixed2 100 = ''100.00''" "fixed2 90 = ''90.00''" "fixed2 2 = ''2.00''"
    unfolding fixed2_def Let_def n by (simp_all add: d digit_def)
qed

theorem entity_metrics_rendering_witness:
  "learning (bare_snapshot\<lparr>learning := Some some_learning,
      countries := Some [(''Country Alpha'', some_country),
                         (''beta'', some_country\<lparr>gdp := JUndefined\<rparr>)]\<rparr>) \<noteq> None \<and>
   gdp some_country \<noteq> JUndefined \<and> \<bar>100 :: real\<bar> < 10 ^ 21 \<and>
   (\<forall>y. JStr ''low'' \<noteq> JNum y) \<and>
   alpha_metrics_el (display (fst (refresh (init_client blank_page)
     (Parsed (bare_snapshot\<lparr>learning := Some some_learning,
        countries := Some [(''Country Alpha'', some_country),
                           (''beta'', some_country\<lparr>gdp := JUndefined\<rparr>)]\<rparr>))))) =
     PanelCard
       \<lparr>kpi_gdp = S ''100.00'', kpi_welfare = S ''90.00'', kpi_pressure = V (JStr ''low''),
        tbl_exports = [(''steel'', S ''2.00''), (''energy'', V JNull)],
        tbl_imports = [], tbl_tariffs = []\<rparr> \<and>
   beta_metrics_el (display (fst (refresh (init_client blank_page)
     (Parsed (bare_snapshot\<lparr>learning := Some some_learning,
        countries := Some [(''Country Alpha'', some_country),
                           (''beta'', some_country\<lparr>gdp := JUndefined\<rparr>)]\<rparr>))))) =
     PanelText ''No data available.'' \<and>
   gamma_metrics_el (display (fst (refresh (init_client blank_page)
     (Parsed (bare_snapshot\<lparr>learning := Some some_learning,
        countries := Some [(''Country Alpha'', some_country),
                           (''beta'', some_country\<lparr>gdp := JUndefined\<rparr>)]\<rparr>))))) =
     gamma_metrics_el blank_page"
proof -
  define d where "d = bare_snapshot\<lparr>learning := Some some_learning,
      countries := Some [(''Country Alpha'', some_country),
                         (''beta'', some_country\<lparr>gdp := JUndefined\<rparr>)]\<rparr>"
  have h: "learning d \<noteq> None" by (simp add: d_def)
  have g: "gdp some_country \<noteq> JUndefined" by (simp add: some_country_def)
  have pa: "panel_after d ''Country Alpha'' ''alpha'' before = renderCountryMetrics (Some some_country)"
    "panel_after d ''Country Beta'' ''beta'' before =
       renderCountryMetrics (Some (some_country\<lparr>gdp := JUndefined\<rparr>))"
    "panel_after d ''Country Gamma'' ''gamma'' before = before" for before
    by (simp_all add: d_def panel_after_def find_country_def)
  have fields: "gdp some_country = JNum 100" "welfare some_country = JNum 90"
    "political_pressure some_country = JStr ''low''"
    "or_empty (exports some_country) = [(''steel'', JNum 2), (''energy'', JNull)]"
    "or_empty (imports some_country) = []" "or_empty (tariffs some_country) = []"
    by (simp_all add: some_country_def or_empty_def)
  have fmt: "formatNumber (JNum 100) = S ''100.00''" "formatNumber (JNum 90) = S ''90.00''"
    "formatNumber (JNum 2) = S ''2.00''" "formatNumber JNull = V JNull"
    "formatNumber (JStr ''low'') = V (JStr ''low'')"
    by (simp_all add: formatNumber_def fixed2_examples)
  from entity_metrics_rendering [OF h, of "init_client blank_page" some_country 100 "JStr ''low''"]
    h g
  show ?thesis
    unfolding d_def [symmetric]
    by (simp add: pa fields fmt init_client_def)
qed

text \<open>
  Two ticks: the first snapshot has a record for Country Alpha, the second has a
  \<open>countries\<close> mapping without one. After the second tick the panel still shows the card
  of the first, not the placeholder.
\<close>

theorem absent_record_keeps_stale_panel:
  "alpha_metrics_el (display (fst (run (init_client blank_page)
      [Parsed (bare_snapshot\<lparr>learning := Some some_learning,
                 countries := Some [(''Country Alpha'', some_country)]\<rparr>),
       Parsed (bare_snapshot\<lparr>learning := Some some_learning,
                 countries := Some []\<rparr>)]))) =
     renderCountryMetrics (Some some_country) \<and>
   renderCountryMetrics (Some some_country) \<noteq> PanelText ''No data available.''"
proof -
  define d1 where "d1 = bare_snapshot\<lparr>learning := Some some_learning,
                 countries := Some [(''Country Alpha'', some_country)]\<rparr>"
  define d2 where "d2 = bare_snapshot\<lparr>learning := Some some_learning,
                 countries := Some []\<rparr>"
  have l: "learning d1 = Some some_learning" "learning d2 = Some some_learning"
    by (simp_all add: d1_def d2_def)
  have pa: "panel_after d1 ''Country Alpha'' ''alpha'' before = renderCountryMetrics (Some some_country)"
    "panel_after d2 ''Country Alpha'' ''alpha'' before = before" for before
    by (simp_all add: d1_def d2_def panel_after_def find_country_def)
  have "alpha_metrics_el (display (fst (run (init_client blank_page) [Parsed d1, Parsed d2]))) =
      renderCountryMetrics (Some some_country)"
    by (simp add: case_prod_beta Let_def panels_after_tick(1) [OF l(1)]
        panels_after_tick(1) [OF l(2)] pa)
  moreover have "renderCountryMetrics (Some some_country) \<noteq> PanelText ''No data available.''"
    by (simp add: renderCountryMetrics_def some_country_def)
  ultimately show ?thesis
    unfolding d1_def d2_def by simp
qed

end
